theory Spec2Isabelle
  imports Complex_Main "HOL-Library.Multiset"
begin

section \<open>TTL cache\<close>

text \<open>
  The class \<open>SimpleCache\<close> of \<^verbatim>\<open>src/hooks/useCache.ts\<close>. The private
  \<open>Map<string, CacheEntry>\<close> is a partial map from keys to entries. \<open>Date.now()\<close>
  is an integer number of milliseconds; it is passed in as \<open>now\<close>. The mutation of
  the map is returned as the updated map.
\<close>

record 'a CacheEntry =
  data :: 'a
  timestamp :: int
  ttl :: int

type_synonym 'a SimpleCache = "string \<rightharpoonup> 'a CacheEntry"

definition SimpleCache_set :: "'a SimpleCache \<Rightarrow> int \<Rightarrow> string \<Rightarrow> 'a \<Rightarrow> int \<Rightarrow> 'a SimpleCache" where
  "SimpleCache_set c now key d ttlSeconds =
     c(key \<mapsto> \<lparr>data = d, timestamp = now, ttl = ttlSeconds * 1000\<rparr>)"

definition SimpleCache_get :: "'a SimpleCache \<Rightarrow> int \<Rightarrow> string \<Rightarrow> 'a option \<times> 'a SimpleCache" where
  "SimpleCache_get c now key =
     (case c key of
        None \<Rightarrow> (None, c)
      | Some entry \<Rightarrow>
          if now - timestamp entry > ttl entry then (None, c(key := None))
          else (Some (data entry), c))"

definition SimpleCache_delete :: "'a SimpleCache \<Rightarrow> string \<Rightarrow> 'a SimpleCache" where
  "SimpleCache_delete c key = c(key := None)"

definition SimpleCache_clear :: "'a SimpleCache \<Rightarrow> 'a SimpleCache" where
  "SimpleCache_clear c = Map.empty"

definition SimpleCache_has :: "'a SimpleCache \<Rightarrow> int \<Rightarrow> string \<Rightarrow> bool \<times> 'a SimpleCache" where
  "SimpleCache_has c now key =
     (case c key of
        None \<Rightarrow> (False, c)
      | Some entry \<Rightarrow>
          if now - timestamp entry > ttl entry then (False, c(key := None))
          else (True, c))"

section \<open>Data model\<close>

text \<open>
  The row types of \<^verbatim>\<open>src/lib/supabase.ts\<close> and of the SQL migrations. A uuid is a
  string. Timestamps (\<open>new Date().toISOString()\<close>, \<open>now()\<close>) are integers, the
  milliseconds of the clock. An optional or nullable column is an \<open>option\<close>.
\<close>

type_synonym uuid = string

datatype Role = owner | backend | frontend | pm | qa | designer

datatype ToolStatus = pending | approved | rejected

text \<open>
  A row of \<open>ai_tools\<close>. The descriptive columns that no operation below reads
  (category, urls, difficulty, pricing, tags) are carried by the record's extension.
\<close>

record AITool =
  tool_id :: uuid
  name :: string
  description :: string
  status :: ToolStatus
  approved_by :: "uuid option"
  approved_at :: "int option"
  rejection_reason :: "string option"
  created_by :: "uuid option"

text \<open>
  The caller of a query: \<open>auth.uid()\<close> on the server and \<open>user.id\<close> in the client,
  with the role of the \<open>profiles\<close> row of that id when there is one
  (\<open>profile?.role\<close> in the client, the \<open>EXISTS (SELECT 1 FROM profiles ...)\<close>
  subquery on the server).
\<close>

record Actor =
  uid :: uuid
  profile_role :: "Role option"

section \<open>Visibility of tools\<close>

text \<open>
  The row-level policy "Users can read approved tools and own tools" on \<open>ai_tools\<close>
  (migration \<^verbatim>\<open>20250918101632_humble_truth.sql\<close>). A null \<open>created_by\<close> equals no
  uid.
\<close>

definition policy_read_ai_tools :: "Actor \<Rightarrow> 'a AITool_scheme \<Rightarrow> bool" where
  "policy_read_ai_tools a t =
     (status t = approved \<or> created_by t = Some (uid a) \<or> profile_role a = Some owner)"

text \<open>
  The filter that \<open>fetchTools\<close> of \<^verbatim>\<open>AIToolsList.tsx\<close> adds to its query: none for an
  owner, \<open>or(status.eq.approved, created_by.eq.<user id>)\<close> for everybody else.
\<close>

definition fetchTools_query :: "Actor \<Rightarrow> 'a AITool_scheme \<Rightarrow> bool" where
  "fetchTools_query a t =
     (if profile_role a = Some owner then True
      else (status t = approved \<or> created_by t = Some (uid a)))"

text \<open>
  The rows that \<open>fetchTools\<close> receives: the rows of the table that pass the policy and
  the query's filter (in the order of the table; the query's \<open>order\<close> clause is not
  modelled).
\<close>

definition fetchTools :: "Actor \<Rightarrow> 'a AITool_scheme list \<Rightarrow> 'a AITool_scheme list" where
  "fetchTools a table = filter (fetchTools_query a) (filter (policy_read_ai_tools a) table)"

text \<open>A tool is visible to an actor when it is among the rows the actor's list receives.\<close>

definition canView :: "'a AITool_scheme \<Rightarrow> Actor \<Rightarrow> bool" where
  "canView t a = (fetchTools a [t] = [t])"

section \<open>Rating aggregation\<close>

text \<open>
  A row of \<open>tool_ratings\<close> (the columns \<open>created_at\<close> and \<open>updated_at\<close> are not
  read by the code below).
\<close>

record ToolRating =
  rating_id :: uuid
  r_tool_id :: uuid
  r_user_id :: uuid
  rating :: int

text \<open>A row of \<open>tool_comments\<close>, likewise.\<close>

record ToolComment =
  comment_id :: uuid
  c_tool_id :: uuid
  c_user_id :: uuid
  content :: string



text \<open>
  The row-level policies "Users can read all ratings for approved tools" on
  \<open>tool_ratings\<close> and "Users can read all comments for approved tools" on
  \<open>tool_comments\<close> (migration \<^verbatim>\<open>20250918101632_humble_truth.sql\<close>): a row can be
  read when \<open>ai_tools\<close> has an approved row of its tool id. (An approved row of
  \<open>ai_tools\<close> is itself readable by every caller, so the subquery sees it.)
  \<open>tool_table\<close> is the table \<open>ai_tools\<close>.
\<close>

definition approved_tool :: "'a AITool_scheme list \<Rightarrow> uuid \<Rightarrow> bool" where
  "approved_tool tool_table tid = list_ex (\<lambda>t. tool_id t = tid \<and> status t = approved) tool_table"


definition policy_read_tool_comments :: "'a AITool_scheme list \<Rightarrow> ToolComment \<Rightarrow> bool" where
  "policy_read_tool_comments tool_table c = approved_tool tool_table (c_tool_id c)"


definition stored_comments :: "uuid \<Rightarrow> ToolComment list \<Rightarrow> ToolComment list" where
  "stored_comments tid comments = filter (\<lambda>c. c_tool_id c = tid) comments"


definition select_comments :: "'a AITool_scheme list \<Rightarrow> uuid \<Rightarrow> ToolComment list \<Rightarrow> ToolComment list" where
  "select_comments tool_table tid comments =
     filter (\<lambda>c. c_tool_id c = tid) (filter (policy_read_tool_comments tool_table) comments)"










section \<open>Calls to the backing services\<close>

text \<open>
  The hosted auth provider, the database and the edge functions are outside the
  repository. Every awaited call to them is a parameter of the model: the reply the call
  gets. A call of the client library resolves with a data value or with an error value,
  or it rejects (the \<open>await\<close> throws).
\<close>

datatype ('e, 'a) reply = Data 'a | Error 'e | Rejects

text \<open>The reply to an insert: the row is written, or the store refuses, or the call rejects.\<close>

datatype write_reply = Written | Refused string | WriteRejects

text \<open>The outcome of one of the application's own async functions.\<close>

datatype 'a promise = Resolved 'a | Rejected

section \<open>Activity log\<close>

datatype ActivityAction =
    login | logout | create_tool | update_tool | delete_tool | approve_tool | reject_tool
  | enable_2fa | disable_2fa | create_category | update_category | delete_category

datatype ResourceType = R_auth | R_ai_tool | R_category | R_profile | R_system

text \<open>A value of the free-form \<open>details\<close> object; a key whose value is undefined is left out.\<close>

datatype jval = JStr string | JBool bool | JTime int

text \<open>A row of \<open>activity_logs\<close> as the client writes it (\<open>id\<close>, \<open>ip_address\<close> and
  \<open>created_at\<close> are filled in by the database).\<close>

record ActivityLog =
  log_user_id :: "uuid option"
  action :: ActivityAction
  resource_type :: ResourceType
  resource_id :: "uuid option"
  details :: "(string \<times> jval) list"
  user_agent :: "string option"

record User =
  user_uid :: uuid
  user_email :: string

record LogActivityParams =
  p_action :: ActivityAction
  p_resourceType :: ResourceType
  p_resourceId :: "uuid option"
  p_details :: "(string \<times> jval) list"

text \<open>
  The object spread \<open>{timestamp, user_id, ...details}\<close>: a key of \<open>details\<close>
  overrides the same key of the base.
\<close>

definition spread :: "(string \<times> jval) list \<Rightarrow> (string \<times> jval) list \<Rightarrow> (string \<times> jval) list" where
  "spread base ext = filter (\<lambda>kv. fst kv \<notin> fst ` set ext) base @ ext"

text \<open>
  \<open>logActivity\<close> of \<^verbatim>\<open>useActivityLogger\<close>. \<open>usr\<close> is the user of the auth context,
  \<open>configured\<close> says whether the \<open>supabase\<close> client exists, \<open>t\<close> is the clock and
  \<open>ua\<close> is \<open>navigator.userAgent\<close>. A refused insert is thrown and caught inside the
  function, as a rejected one is: the function never throws.
\<close>

definition logActivity ::
  "bool \<Rightarrow> User option \<Rightarrow> int \<Rightarrow> string \<Rightarrow> write_reply \<Rightarrow> LogActivityParams
     \<Rightarrow> ActivityLog list \<Rightarrow> ActivityLog list" where
  "logActivity configured usr t ua ins p logs =
     (case usr of
        None \<Rightarrow> logs
      | Some u \<Rightarrow>
          if \<not> configured then logs
          else
            (case ins of
               Written \<Rightarrow>
                 logs @ [\<lparr>log_user_id = Some (user_uid u), action = p_action p,
                          resource_type = p_resourceType p, resource_id = p_resourceId p,
                          details = spread [(''timestamp'', JTime t), (''user_id'', JStr (user_uid u))]
                                      (p_details p),
                          user_agent = Some ua\<rparr>]
             | Refused e \<Rightarrow> logs
             | WriteRejects \<Rightarrow> logs))"

section \<open>Auth context\<close>

text \<open>The state of \<open>AuthProvider\<close> (\<^verbatim>\<open>src/contexts/AuthContext.tsx\<close>).\<close>

record Session =
  access_token :: string
  session_user :: User

record AuthError =
  message :: "string option"

record Profile =
  profile_id :: uuid
  profile_email :: string
  full_name :: string
  role :: Role
  two_factor_enabled :: bool

record AuthState =
  session :: "Session option"
  user :: "User option"
  profile :: "Profile option"
  loading :: bool

text \<open>
  What the functions below change: the state of the provider component, the
  \<open>activity_logs\<close> table, the console (the two-factor code that \<open>signIn\<close> prints,
  with the email it is for, and the lines of \<open>signOut\<close>) and the toasts of the login
  form.
\<close>

datatype ConsoleLine = TwoFactorCode string string | Line string

datatype ToastText =
    toast_not_configured | toast_code_sent | toast_bad_credentials | toast_login_ok
  | toast_invalid_code | toast_resend_failed | toast_code_resent

datatype Toast = SuccessToast ToastText | ErrorToast ToastText

record World =
  auth_state :: AuthState
  activity_logs :: "ActivityLog list"
  console :: "ConsoleLine list"
  toasts :: "Toast list"

definition msg_not_configured :: string where
  "msg_not_configured = ''Supabase not configured. Please set up your environment variables.''"

text \<open>The UTF-8 bytes of the Bulgarian message of the \<open>catch\<close> branch of \<open>signIn\<close>.\<close>

definition msg_sign_in_failed :: string where
  "msg_sign_in_failed =
     [CHR 0xD0, CHR 0x93, CHR 0xD1, CHR 0x80, CHR 0xD0, CHR 0xB5, CHR 0xD1, CHR 0x88,
      CHR 0xD0, CHR 0xBA, CHR 0xD0, CHR 0xB0, CHR 0x20, CHR 0xD0, CHR 0xBF, CHR 0xD1,
      CHR 0x80, CHR 0xD0, CHR 0xB8, CHR 0x20, CHR 0xD0, CHR 0xB2, CHR 0xD0, CHR 0xBB,
      CHR 0xD0, CHR 0xB8, CHR 0xD0, CHR 0xB7, CHR 0xD0, CHR 0xB0, CHR 0xD0, CHR 0xBD,
      CHR 0xD0, CHR 0xB5]"

text \<open>The UTF-8 bytes of the Bulgarian message for an invalid code.\<close>

definition msg_invalid_code :: string where
  "msg_invalid_code =
     [CHR 0xD0, CHR 0x9D, CHR 0xD0, CHR 0xB5, CHR 0xD0, CHR 0xB2, CHR 0xD0, CHR 0xB0,
      CHR 0xD0, CHR 0xBB, CHR 0xD0, CHR 0xB8, CHR 0xD0, CHR 0xB4, CHR 0xD0, CHR 0xB5,
      CHR 0xD0, CHR 0xBD, CHR 0x20, CHR 0xD0, CHR 0xBA, CHR 0xD0, CHR 0xBE, CHR 0xD0,
      CHR 0xB4]"

definition set_loading :: "bool \<Rightarrow> World \<Rightarrow> World" where
  "set_loading b wd = wd\<lparr>auth_state := (auth_state wd)\<lparr>loading := b\<rparr>\<rparr>"

definition console_log :: "ConsoleLine \<Rightarrow> World \<Rightarrow> World" where
  "console_log l wd = wd\<lparr>console := console wd @ [l]\<rparr>"

definition show_toast :: "Toast \<Rightarrow> World \<Rightarrow> World" where
  "show_toast x wd = wd\<lparr>toasts := toasts wd @ [x]\<rparr>"

text \<open>
  The listener registered with \<open>supabase.auth.onAuthStateChange\<close>. With a session it
  starts \<open>fetchProfile\<close>, which is not awaited and completes later
  (\<open>fetchProfile_resolved\<close>).
\<close>

definition onAuthStateChange :: "Session option \<Rightarrow> AuthState \<Rightarrow> AuthState" where
  "onAuthStateChange sess st =
     (case sess of
        Some s \<Rightarrow> st\<lparr>session := Some s, user := Some (session_user s)\<rparr>
      | None \<Rightarrow> st\<lparr>session := None, user := None, profile := None, loading := False\<rparr>)"

definition fetchProfile_resolved :: "(string, Profile option) reply \<Rightarrow> AuthState \<Rightarrow> AuthState" where
  "fetchProfile_resolved r st =
     (case r of
        Data d \<Rightarrow> st\<lparr>profile := d, loading := False\<rparr>
      | Error e \<Rightarrow> st\<lparr>loading := False\<rparr>
      | Rejects \<Rightarrow> st\<lparr>loading := False\<rparr>)"

text \<open>The \<open>then\<close> of \<open>supabase.auth.getSession()\<close> in the mount effect.\<close>

definition getSession_resolved :: "Session option \<Rightarrow> AuthState \<Rightarrow> AuthState" where
  "getSession_resolved sess st =
     (case sess of
        Some s \<Rightarrow> st\<lparr>session := Some s, user := Some (session_user s)\<rparr>
      | None \<Rightarrow> st\<lparr>session := None, user := None, loading := False\<rparr>)"

text \<open>
  A successful \<open>signInWithPassword\<close> stores the session in the client and notifies the
  listener with it.
\<close>

definition session_established :: "Session option \<Rightarrow> World \<Rightarrow> World" where
  "session_established sess wd =
     (case sess of
        None \<Rightarrow> wd
      | Some s \<Rightarrow> wd\<lparr>auth_state := onAuthStateChange (Some s) (auth_state wd)\<rparr>)"

text \<open>
  The replies that one call of \<open>signIn\<close> gets: from \<open>signInWithPassword\<close> (an error,
  or the user and the session), from the query of \<open>two_factor_enabled\<close> in
  \<open>profiles\<close> (\<open>profileData?.two_factor_enabled\<close>, \<open>None\<close> when there is no row or the
  value is null), and from the insert into \<open>activity_logs\<close>; the code drawn with
  \<open>Math.random\<close>, the clock and the user agent.
\<close>

record SignInAnswers =
  signInWithPassword_reply :: "(AuthError, User option \<times> Session option) reply"
  profile_reply :: "(string, bool option) reply"
  login_insert_reply :: write_reply
  random_code :: string
  clock :: int
  userAgent :: string

definition login_row :: "User \<Rightarrow> string \<Rightarrow> bool \<Rightarrow> int \<Rightarrow> string \<Rightarrow> ActivityLog" where
  "login_row u em has_2fa t ua =
     \<lparr>log_user_id = Some (user_uid u), action = login, resource_type = R_auth,
      resource_id = None,
      details = [(''email'', JStr em), (''login_time'', JTime t), (''has_2fa'', JBool has_2fa),
                 (''user_agent'', JStr ua)],
      user_agent = Some ua\<rparr>"

definition insert_activity_log :: "write_reply \<Rightarrow> ActivityLog \<Rightarrow> World \<Rightarrow> World" where
  "insert_activity_log ins row wd =
     (case ins of
        Written \<Rightarrow> wd\<lparr>activity_logs := activity_logs wd @ [row]\<rparr>
      | Refused e \<Rightarrow> wd
      | WriteRejects \<Rightarrow> wd)"

text \<open>
  \<open>signIn(email, password)\<close>. The password only reaches the provider, whose reply is
  \<open>signInWithPassword_reply\<close>.
\<close>

definition signIn ::
  "bool \<Rightarrow> SignInAnswers \<Rightarrow> string \<Rightarrow> string \<Rightarrow> World \<Rightarrow> AuthError option \<times> World" where
  "signIn configured w em pw wd =
     (if \<not> configured then (Some \<lparr>message = Some msg_not_configured\<rparr>, wd)
      else
        (let wd0 = set_loading True wd in
         case signInWithPassword_reply w of
           Rejects \<Rightarrow> (Some \<lparr>message = Some msg_sign_in_failed\<rparr>, set_loading False wd0)
         | Error authError \<Rightarrow> (Some authError, set_loading False wd0)
         | Data (authUser, authSession) \<Rightarrow>
             (let wd1 = session_established authSession wd0 in
              case authUser of
                None \<Rightarrow> (None, set_loading False wd1)
              | Some u \<Rightarrow>
                  (case profile_reply w of
                     Rejects \<Rightarrow> (Some \<lparr>message = Some msg_sign_in_failed\<rparr>, set_loading False wd1)
                   | Error e \<Rightarrow>
                       (None, set_loading False
                          (insert_activity_log (login_insert_reply w)
                             (login_row u em False (clock w) (userAgent w)) wd1))
                   | Data two_factor \<Rightarrow>
                       (let wd2 = (if two_factor = Some True
                                   then console_log (TwoFactorCode em (random_code w)) wd1
                                   else wd1)
                        in (None, set_loading False
                              (insert_activity_log (login_insert_reply w)
                                 (login_row u em (two_factor = Some True) (clock w) (userAgent w))
                                 wd2)))))))"

section \<open>The edge function verify-2fa and verifyTwoFactor\<close>

text \<open>
  The JSON body and the status of the response of the edge function. A field that the
  body does not have is \<open>None\<close>.
\<close>

record EdgeResponse =
  http_status :: nat
  body_success :: "bool option"
  body_tempPassword :: "string option"
  body_error :: "string option"
  body_message :: "string option"

record AuthUserRow =
  au_id :: uuid
  au_email :: string

text \<open>The UTF-8 bytes of the two Bulgarian texts of the response bodies.\<close>

definition msg_user_not_found :: string where
  "msg_user_not_found =
     [CHR 0xD0, CHR 0x9F, CHR 0xD0, CHR 0xBE, CHR 0xD1, CHR 0x82, CHR 0xD1, CHR 0x80,
      CHR 0xD0, CHR 0xB5, CHR 0xD0, CHR 0xB1, CHR 0xD0, CHR 0xB8, CHR 0xD1, CHR 0x82,
      CHR 0xD0, CHR 0xB5, CHR 0xD0, CHR 0xBB, CHR 0xD1, CHR 0x8F, CHR 0xD1, CHR 0x82,
      CHR 0x20, CHR 0xD0, CHR 0xBD, CHR 0xD0, CHR 0xB5, CHR 0x20, CHR 0xD0, CHR 0xB5,
      CHR 0x20, CHR 0xD0, CHR 0xBD, CHR 0xD0, CHR 0xB0, CHR 0xD0, CHR 0xBC, CHR 0xD0,
      CHR 0xB5, CHR 0xD1, CHR 0x80, CHR 0xD0, CHR 0xB5, CHR 0xD0, CHR 0xBD]"

definition msg_code_verified :: string where
  "msg_code_verified =
     [CHR 0xD0, CHR 0x9A, CHR 0xD0, CHR 0xBE, CHR 0xD0, CHR 0xB4, CHR 0xD1, CHR 0x8A,
      CHR 0xD1, CHR 0x82, CHR 0x20, CHR 0xD0, CHR 0xB5, CHR 0x20, CHR 0xD0, CHR 0xBF,
      CHR 0xD0, CHR 0xBE, CHR 0xD1, CHR 0x82, CHR 0xD0, CHR 0xB2, CHR 0xD1, CHR 0x8A,
      CHR 0xD1, CHR 0x80, CHR 0xD0, CHR 0xB4, CHR 0xD0, CHR 0xB5, CHR 0xD0, CHR 0xBD,
      CHR 0x20, CHR 0xD1, CHR 0x83, CHR 0xD1, CHR 0x81, CHR 0xD0, CHR 0xBF, CHR 0xD0,
      CHR 0xB5, CHR 0xD1, CHR 0x88, CHR 0xD0, CHR 0xBD, CHR 0xD0, CHR 0xBE]"

text \<open>
  The replies of the admin client inside the edge function: \<open>listUsers\<close>, the error of
  \<open>updateUserById\<close> if any, and the temporary password built from the clock and
  \<open>Math.random\<close>.
\<close>

record VerifyEdgeAnswers =
  listUsers_reply :: "(string, AuthUserRow list) reply"
  updateUserById_error :: "string option"
  fresh_tempPassword :: string

text \<open>\<open>code.length !== 6 || !/^\d{6}$/.test(code)\<close>, negated.\<close>

definition six_digits :: "string \<Rightarrow> bool" where
  "six_digits code = (length code = 6 \<and> list_all (\<lambda>c. c \<in> set ''0123456789'') code)"

text \<open>
  The handler of \<^verbatim>\<open>verify-2fa\<close> for a POST with the body \<open>{email, code}\<close>. An empty
  string is falsy. Anything thrown inside is answered with status 500.
\<close>

definition verify_2fa :: "VerifyEdgeAnswers \<Rightarrow> string \<Rightarrow> string \<Rightarrow> EdgeResponse" where
  "verify_2fa w em code =
     (if em = [] \<or> code = [] then
        \<lparr>http_status = 400, body_success = None, body_tempPassword = None,
         body_error = Some ''Email and code are required'', body_message = None\<rparr>
      else if \<not> six_digits code then
        \<lparr>http_status = 400, body_success = Some False, body_tempPassword = None,
         body_error = Some msg_invalid_code, body_message = None\<rparr>
      else
        (case listUsers_reply w of
           Rejects \<Rightarrow>
             \<lparr>http_status = 500, body_success = None, body_tempPassword = None,
              body_error = None, body_message = None\<rparr>
         | Error userError \<Rightarrow>
             \<lparr>http_status = 500, body_success = None, body_tempPassword = None,
              body_error = Some userError, body_message = None\<rparr>
         | Data users \<Rightarrow>
             (case find (\<lambda>u. au_email u = em) users of
                None \<Rightarrow>
                  \<lparr>http_status = 404, body_success = Some False, body_tempPassword = None,
                   body_error = Some msg_user_not_found, body_message = None\<rparr>
              | Some u \<Rightarrow>
                  (case updateUserById_error w of
                     Some updateError \<Rightarrow>
                       \<lparr>http_status = 500, body_success = None, body_tempPassword = None,
                        body_error = Some updateError, body_message = None\<rparr>
                   | None \<Rightarrow>
                       \<lparr>http_status = 200, body_success = Some True,
                        body_tempPassword = Some (fresh_tempPassword w),
                        body_error = None, body_message = Some msg_code_verified\<rparr>))))"

text \<open>
  \<open>supabase.functions.invoke\<close>: a response with a 2xx status is the data; any other
  status, and a request that did not reach the function (\<open>None\<close>), is an error.
\<close>

definition functions_invoke :: "EdgeResponse option \<Rightarrow> EdgeResponse option \<times> AuthError option" where
  "functions_invoke r =
     (case r of
        None \<Rightarrow> (None, Some \<lparr>message = Some ''Failed to send a request to the Edge Function''\<rparr>)
      | Some resp \<Rightarrow>
          if 200 \<le> http_status resp \<and> http_status resp < 300 then (Some resp, None)
          else (None, Some \<lparr>message = Some ''Edge Function returned a non-2xx status code''\<rparr>))"

text \<open>
  The replies that one call of \<open>verifyTwoFactor\<close> gets: those of the edge function,
  whether the request reaches it, and the reply to the sign-in with the temporary
  password.
\<close>

record VerifyAnswers =
  edge :: VerifyEdgeAnswers
  request_delivered :: bool
  temp_signIn_reply :: "(AuthError, User option \<times> Session option) reply"

text \<open>
  \<open>verifyTwoFactor(email, code)\<close>. There is no \<open>try\<close> around it: when the second
  \<open>signInWithPassword\<close> rejects, so does the function, and \<open>loading\<close> stays set.
\<close>

definition verifyTwoFactor ::
  "bool \<Rightarrow> VerifyAnswers \<Rightarrow> string \<Rightarrow> string \<Rightarrow> World \<Rightarrow> AuthError option promise \<times> World" where
  "verifyTwoFactor configured w em code wd =
     (if \<not> configured then (Resolved (Some \<lparr>message = Some msg_not_configured\<rparr>), wd)
      else
        (let wd0 = set_loading True wd in
         case functions_invoke
                (if request_delivered w then Some (verify_2fa (edge w) em code) else None) of
           (_, Some err) \<Rightarrow> (Resolved (Some err), set_loading False wd0)
         | (None, None) \<Rightarrow> (Rejected, wd0)
         | (Some dat, None) \<Rightarrow>
             if body_success dat \<noteq> Some True
             then (Resolved (Some \<lparr>message = Some msg_invalid_code\<rparr>), set_loading False wd0)
             else
               (case temp_signIn_reply w of
                  Rejects \<Rightarrow> (Rejected, wd0)
                | Error signInError \<Rightarrow> (Resolved (Some signInError), set_loading False wd0)
                | Data (u, sess) \<Rightarrow>
                    (Resolved None, set_loading False (session_established sess wd0)))))"

text \<open>\<open>resendTwoFactorCode(email)\<close>: the error of the invocation of \<^verbatim>\<open>send-2fa-code\<close>.\<close>

definition resendTwoFactorCode :: "bool \<Rightarrow> AuthError option \<Rightarrow> string \<Rightarrow> AuthError option" where
  "resendTwoFactorCode configured invoke_error em =
     (if \<not> configured then Some \<lparr>message = Some msg_not_configured\<rparr> else invoke_error)"

section \<open>signOut\<close>

text \<open>\<open>String.prototype.includes\<close>.\<close>

fun str_includes :: "string \<Rightarrow> string \<Rightarrow> bool" where
  "str_includes [] sub = (sub = [])"
| "str_includes (x # xs) sub = (take (length sub) (x # xs) = sub \<or> str_includes xs sub)"

definition session_already_gone :: "AuthError \<Rightarrow> bool" where
  "session_already_gone e =
     (case message e of
        None \<Rightarrow> False
      | Some m \<Rightarrow>
          str_includes m ''Session from session_id claim in JWT does not exist'' \<or>
          str_includes m ''session_not_found'')"

text \<open>
  \<open>signOut()\<close>. \<open>r\<close> is the outcome of \<open>supabase.auth.signOut()\<close>: resolved with
  its \<open>error\<close> (or none), or rejected. \<open>clearAll\<close> clears the cache.
\<close>

definition signOut ::
  "bool \<Rightarrow> AuthError option promise \<Rightarrow> World \<times> 'd SimpleCache
     \<Rightarrow> AuthError option \<times> World \<times> 'd SimpleCache" where
  "signOut configured r wc =
     (case wc of (wd, c) \<Rightarrow>
        if \<not> configured then (None, wd, c)
        else
          (let c1 = SimpleCache_clear c;
               wd1 = wd\<lparr>auth_state := (auth_state wd)\<lparr>session := None, user := None, profile := None\<rparr>\<rparr>
           in case r of
                Rejected \<Rightarrow> (None, console_log (Line ''Logout exception:'') wd1, c1)
              | Resolved None \<Rightarrow> (None, console_log (Line ''Logout successful'') wd1, c1)
              | Resolved (Some e) \<Rightarrow>
                  if session_already_gone e
                  then (None, console_log (Line ''Session already expired, logout successful'') wd1, c1)
                  else (None, console_log (Line ''Logout error:'') wd1, c1)))"

section \<open>Login form\<close>

text \<open>The state of \<open>LoginForm\<close> and its handlers (\<^verbatim>\<open>components/LoginForm\<close>).\<close>

record LoginForm =
  email :: string
  password :: string
  twoFactorCode :: string
  showTwoFactor :: bool
  twoFactorEmail :: string

definition handleSubmit ::
  "bool \<Rightarrow> SignInAnswers \<Rightarrow> LoginForm \<times> World \<Rightarrow> LoginForm \<times> World" where
  "handleSubmit configured w fw =
     (case fw of (f, wd) \<Rightarrow>
        if \<not> configured then (f, show_toast (ErrorToast toast_not_configured) wd)
        else
          (case signIn configured w (email f) (password f) wd of
             (Some e, wd') \<Rightarrow>
               if message e = Some ''TWO_FACTOR_REQUIRED''
               then (f\<lparr>twoFactorEmail := email f, showTwoFactor := True, email := [], password := []\<rparr>,
                     show_toast (SuccessToast toast_code_sent) wd')
               else (f, show_toast (ErrorToast toast_bad_credentials) wd')
           | (None, wd') \<Rightarrow>
               (f\<lparr>email := [], password := []\<rparr>, show_toast (SuccessToast toast_login_ok) wd')))"


text \<open>The "back" button of the code form.\<close>

definition cancel :: "LoginForm \<Rightarrow> LoginForm" where
  "cancel f = f\<lparr>showTwoFactor := False, twoFactorCode := [], twoFactorEmail := []\<rparr>"

text \<open>
  The states of the login sequence, read off what is rendered: \<open>App\<close> shows the
  dashboard when there is a session and the login form otherwise, and the login form
  shows the code form when \<open>showTwoFactor\<close> is set and the credentials form otherwise.
  (While \<open>loading\<close> is set \<open>App\<close> shows a spinner in their place; the functions
  above clear \<open>loading\<close> again before they resolve. The state of the form is taken
  as its handlers leave it.)
\<close>

datatype LoginState = AwaitingCredentials | AwaitingCode | Authenticated

definition login_state :: "LoginForm \<times> World \<Rightarrow> LoginState" where
  "login_state fw =
     (case fw of (f, wd) \<Rightarrow>
        if session (auth_state wd) \<noteq> None then Authenticated
        else if showTwoFactor f then AwaitingCode
        else AwaitingCredentials)"

text \<open>
  The worlds that the provider component can be in: it mounts with no session, user or
  profile and with \<open>loading\<close> set; without a client the mount effect only clears
  \<open>loading\<close>; with a client, the session of \<open>getSession\<close>, the events of the
  listener and the completions of \<open>fetchProfile\<close> arrive; and the functions of the
  context are called. The rows of \<open>activity_logs\<close> at mount are arbitrary.
\<close>

definition initial_world :: "ActivityLog list \<Rightarrow> World" where
  "initial_world logs =
     \<lparr>auth_state = \<lparr>session = None, user = None, profile = None, loading = True\<rparr>,
      activity_logs = logs, console = [], toasts = []\<rparr>"

inductive reachable :: "bool \<Rightarrow> World \<Rightarrow> bool" for configured :: bool where
  mount: "reachable configured (initial_world logs)"
| no_client: "reachable configured wd \<Longrightarrow> \<not> configured \<Longrightarrow> reachable configured (set_loading False wd)"
| got_session: "reachable configured wd \<Longrightarrow> configured \<Longrightarrow>
     reachable configured (wd\<lparr>auth_state := getSession_resolved sess (auth_state wd)\<rparr>)"
| auth_event: "reachable configured wd \<Longrightarrow> configured \<Longrightarrow>
     reachable configured (wd\<lparr>auth_state := onAuthStateChange sess (auth_state wd)\<rparr>)"
| got_profile: "reachable configured wd \<Longrightarrow> configured \<Longrightarrow>
     reachable configured (wd\<lparr>auth_state := fetchProfile_resolved r (auth_state wd)\<rparr>)"
| called_signIn: "reachable configured wd \<Longrightarrow>
     reachable configured (snd (signIn configured w em pw wd))"
| called_verifyTwoFactor: "reachable configured wd \<Longrightarrow>
     reachable configured (snd (verifyTwoFactor configured v em code wd))"
| called_signOut: "reachable configured wd \<Longrightarrow>
     reachable configured (fst (snd (signOut configured r (wd, (c :: unit SimpleCache)))))"
| toast_shown: "reachable configured wd \<Longrightarrow> reachable configured (show_toast x wd)"
| log_written: "reachable configured wd \<Longrightarrow>
     reachable configured (wd\<lparr>activity_logs := logs\<rparr>)"

section \<open>Tool approval\<close>

text \<open>
  The policies of \<open>ai_tools\<close> for insert and update (migration
  \<^verbatim>\<open>20250918101632_humble_truth.sql\<close>): a tool is created by its creator in status
  pending; the creator and the owners may update a row. The update policy does not look
  at the status.
\<close>

definition policy_insert_ai_tools :: "Actor \<Rightarrow> 'a AITool_scheme \<Rightarrow> bool" where
  "policy_insert_ai_tools a t = (created_by t = Some (uid a) \<and> status t = pending)"

definition policy_update_ai_tools :: "Actor \<Rightarrow> 'a AITool_scheme \<Rightarrow> bool" where
  "policy_update_ai_tools a t = (created_by t = Some (uid a) \<or> profile_role a = Some owner)"

text \<open>
  The signed-in user of the auth context as the caller of a query: \<open>auth.uid()\<close> is the
  id of the user, the role is that of the profile.
\<close>

definition caller :: "User \<Rightarrow> Role option \<Rightarrow> Actor" where
  "caller u r = \<lparr>uid = user_uid u, profile_role = r\<rparr>"


definition insert_ai_tool :: "User \<Rightarrow> Role option \<Rightarrow> AITool \<Rightarrow> AITool list \<Rightarrow> AITool list" where
  "insert_ai_tool u r row table =
     (if policy_insert_ai_tools (caller u r) row then table @ [row] else table)"

text \<open>
  \<open>update(...).eq('id', toolId)\<close>: the patch is applied to the rows of that id that the
  update policy lets the caller touch. Without a signed-in user no policy applies and no
  row is touched.
\<close>

definition update_ai_tools ::
  "User option \<Rightarrow> Role option \<Rightarrow> uuid \<Rightarrow> (AITool \<Rightarrow> AITool) \<Rightarrow> AITool list \<Rightarrow> AITool list" where
  "update_ai_tools usr r tid patch table =
     (case usr of
        None \<Rightarrow> table
      | Some u \<Rightarrow>
          map (\<lambda>t. if tool_id t = tid \<and> policy_update_ai_tools (caller u r) t then patch t else t)
            table)"

text \<open>The UTF-8 bytes of the Bulgarian default text of \<open>confirmReject\<close>.\<close>

definition default_rejection_reason :: string where
  "default_rejection_reason =
     [CHR 0xD0, CHR 0x9D, CHR 0xD1, CHR 0x8F, CHR 0xD0, CHR 0xBC, CHR 0xD0, CHR 0xB0,
      CHR 0x20, CHR 0xD0, CHR 0xBF, CHR 0xD0, CHR 0xBE, CHR 0xD1, CHR 0x81, CHR 0xD0,
      CHR 0xBE, CHR 0xD1, CHR 0x87, CHR 0xD0, CHR 0xB5, CHR 0xD0, CHR 0xBD, CHR 0xD0,
      CHR 0xB0, CHR 0x20, CHR 0xD0, CHR 0xBF, CHR 0xD1, CHR 0x80, CHR 0xD0, CHR 0xB8,
      CHR 0xD1, CHR 0x87, CHR 0xD0, CHR 0xB8, CHR 0xD0, CHR 0xBD, CHR 0xD0, CHR 0xB0]"

text \<open>
  The objects that \<open>handleApprove\<close> and \<open>confirmReject\<close> pass to \<open>update\<close>. A key
  whose value is undefined (\<open>user?.id\<close> without a user) is not sent, and the column
  keeps its value. \<open>rejectionReason || default\<close> takes the default for the empty
  string.
\<close>

definition approve_patch :: "User option \<Rightarrow> int \<Rightarrow> AITool \<Rightarrow> AITool" where
  "approve_patch usr t row =
     row\<lparr>status := approved,
         approved_by := (case usr of Some u \<Rightarrow> Some (user_uid u) | None \<Rightarrow> approved_by row),
         approved_at := Some t,
         rejection_reason := None\<rparr>"

definition reject_patch :: "User option \<Rightarrow> int \<Rightarrow> string \<Rightarrow> AITool \<Rightarrow> AITool" where
  "reject_patch usr t reason row =
     row\<lparr>status := rejected,
         approved_by := (case usr of Some u \<Rightarrow> Some (user_uid u) | None \<Rightarrow> approved_by row),
         approved_at := Some t,
         rejection_reason := Some (if reason = [] then default_rejection_reason else reason)\<rparr>"

text \<open>The state of \<open>AdminPanel\<close> that moderation uses.\<close>

record AdminPanel =
  tools :: "AITool list"
  rejectionReason :: string
  showRejectionModal :: bool
  selectedTool :: "AITool option"

text \<open>
  The replies that one moderation call gets: the error of the update if any, the reply
  to the insert of the audit row, whether the reload of the list succeeds; the clock and
  the user agent.
\<close>

record ModerationAnswers =
  update_error :: "string option"
  audit_insert_reply :: write_reply
  reload_ok :: bool
  m_clock :: int
  m_userAgent :: string

text \<open>\<open>fetchTools\<close> of the panel: the rows the caller may read replace the list.\<close>

definition reload_tools ::
  "User option \<Rightarrow> Role option \<Rightarrow> bool \<Rightarrow> AITool list \<Rightarrow> AdminPanel \<Rightarrow> AdminPanel" where
  "reload_tools usr r ok table p =
     (if \<not> ok then p
      else p\<lparr>tools := (case usr of
                          None \<Rightarrow> []
                        | Some u \<Rightarrow> filter (policy_read_ai_tools (caller u r)) table)\<rparr>)"

definition opt_field :: "string \<Rightarrow> string option \<Rightarrow> (string \<times> jval) list" where
  "opt_field k v = (case v of None \<Rightarrow> [] | Some x \<Rightarrow> [(k, JStr x)])"

text \<open>
  \<open>handleApprove(toolId)\<close>. The state is the panel, the table \<open>ai_tools\<close> and the
  table \<open>activity_logs\<close>. Neither this handler nor \<open>confirmReject\<close> reads the status
  of the tool. (The cache invalidation is not modelled.)
\<close>

definition handleApprove ::
  "bool \<Rightarrow> User option \<Rightarrow> Role option \<Rightarrow> ModerationAnswers \<Rightarrow> uuid
     \<Rightarrow> AdminPanel \<times> AITool list \<times> ActivityLog list
     \<Rightarrow> AdminPanel \<times> AITool list \<times> ActivityLog list" where
  "handleApprove configured usr r w toolId s =
     (case s of (p, table, logs) \<Rightarrow>
        (let tool = find (\<lambda>t. tool_id t = toolId) (tools p) in
         case update_error w of
           None \<Rightarrow>
             (let table' = update_ai_tools usr r toolId (approve_patch usr (m_clock w)) table;
                  logs' = logActivity configured usr (m_clock w) (m_userAgent w) (audit_insert_reply w)
                            \<lparr>p_action = approve_tool, p_resourceType = R_ai_tool,
                             p_resourceId = Some toolId,
                             p_details = opt_field ''tool_name'' (map_option name tool)
                               @ opt_field ''approved_by'' (map_option user_uid usr)
                               @ [(''approved_at'', JTime (m_clock w))]\<rparr> logs
              in (reload_tools usr r (reload_ok w) table' p, table', logs'))
         | Some msg \<Rightarrow>
             (p, table,
              logActivity configured usr (m_clock w) (m_userAgent w) (audit_insert_reply w)
                \<lparr>p_action = approve_tool, p_resourceType = R_ai_tool,
                 p_resourceId = Some toolId,
                 p_details = opt_field ''tool_name'' (map_option name tool)
                   @ [(''error'', JStr msg), (''success'', JBool False)]\<rparr> logs)))"

text \<open>\<open>handleReject(tool)\<close> opens the modal; the text area sets the reason.\<close>

definition handleReject :: "AITool \<Rightarrow> AdminPanel \<Rightarrow> AdminPanel" where
  "handleReject tool p = p\<lparr>selectedTool := Some tool, rejectionReason := [], showRejectionModal := True\<rparr>"

definition setRejectionReason :: "string \<Rightarrow> AdminPanel \<Rightarrow> AdminPanel" where
  "setRejectionReason reason p = p\<lparr>rejectionReason := reason\<rparr>"

text \<open>\<open>confirmReject()\<close>, the confirm button of the modal.\<close>

definition confirmReject ::
  "bool \<Rightarrow> User option \<Rightarrow> Role option \<Rightarrow> ModerationAnswers
     \<Rightarrow> AdminPanel \<times> AITool list \<times> ActivityLog list
     \<Rightarrow> AdminPanel \<times> AITool list \<times> ActivityLog list" where
  "confirmReject configured usr r w s =
     (case s of (p, table, logs) \<Rightarrow>
        (case selectedTool p of
           None \<Rightarrow> s
         | Some sel \<Rightarrow>
             (case update_error w of
                None \<Rightarrow>
                  (let table' = update_ai_tools usr r (tool_id sel)
                                  (reject_patch usr (m_clock w) (rejectionReason p)) table;
                       logs' = logActivity configured usr (m_clock w) (m_userAgent w)
                                 (audit_insert_reply w)
                                 \<lparr>p_action = reject_tool, p_resourceType = R_ai_tool,
                                  p_resourceId = Some (tool_id sel),
                                  p_details =
                                    [(''tool_name'', JStr (name sel)),
                                     (''rejection_reason'',
                                        JStr (if rejectionReason p = [] then default_rejection_reason
                                              else rejectionReason p))]
                                    @ opt_field ''rejected_by'' (map_option user_uid usr)
                                    @ [(''rejected_at'', JTime (m_clock w))]\<rparr> logs
                   in ((reload_tools usr r (reload_ok w) table' p)
                         \<lparr>showRejectionModal := False, selectedTool := None, rejectionReason := []\<rparr>,
                       table', logs'))
              | Some msg \<Rightarrow>
                  (p, table,
                   logActivity configured usr (m_clock w) (m_userAgent w) (audit_insert_reply w)
                     \<lparr>p_action = reject_tool, p_resourceType = R_ai_tool,
                      p_resourceId = Some (tool_id sel),
                      p_details =
                        [(''tool_name'', JStr (name sel)),
                         (''rejection_reason'', JStr (rejectionReason p)),
                         (''error'', JStr msg), (''success'', JBool False)]\<rparr> logs))))"



section \<open>Rating a tool\<close>

text \<open>
  The constraints of \<open>tool_ratings\<close>: the primary key \<open>id\<close> (default
  \<open>gen_random_uuid()\<close>), \<open>CHECK (rating >= 1 AND rating <= 5)\<close> and
  \<open>UNIQUE(tool_id, user_id)\<close>.
\<close>

datatype PgError = check_violation | unique_violation

text \<open>
  \<open>from('tool_ratings').upsert({tool_id, user_id, rating})\<close> as \<open>handleRatingClick\<close>
  calls it, with no \<open>onConflict\<close> option: the request is an insert whose conflict
  target is the primary key. The object has no \<open>id\<close>, so the row gets the generated
  id \<open>new_id\<close>. A row with that id would be updated; failing that the row is inserted,
  and the unique constraint on \<open>(tool_id, user_id)\<close> refuses a second row of the same
  tool and user.
\<close>

definition upsert_tool_ratings ::
  "uuid \<Rightarrow> uuid \<Rightarrow> uuid \<Rightarrow> int \<Rightarrow> ToolRating list \<Rightarrow> PgError + ToolRating list" where
  "upsert_tool_ratings new_id tid usr_id val table =
     (if \<not> (1 \<le> val \<and> val \<le> 5) then Inl check_violation
      else if list_ex (\<lambda>x. rating_id x = new_id) table then
        (if list_ex (\<lambda>x. rating_id x \<noteq> new_id \<and> r_tool_id x = tid \<and> r_user_id x = usr_id) table
         then Inl unique_violation
         else Inr (map (\<lambda>x. if rating_id x = new_id
                             then x\<lparr>r_tool_id := tid, r_user_id := usr_id, rating := val\<rparr>
                             else x) table))
      else if list_ex (\<lambda>x. r_tool_id x = tid \<and> r_user_id x = usr_id) table
        then Inl unique_violation
      else Inr (table @ [\<lparr>rating_id = new_id, r_tool_id = tid, r_user_id = usr_id, rating = val\<rparr>]))"

text \<open>
  The upsert with \<open>onConflict: 'tool_id,user_id'\<close>, which the call does not ask for:
  the row of the tool and user is updated when there is one.
\<close>

definition upsert_on_tool_user ::
  "uuid \<Rightarrow> uuid \<Rightarrow> uuid \<Rightarrow> int \<Rightarrow> ToolRating list \<Rightarrow> PgError + ToolRating list" where
  "upsert_on_tool_user new_id tid usr_id val table =
     (if \<not> (1 \<le> val \<and> val \<le> 5) then Inl check_violation
      else if list_ex (\<lambda>x. r_tool_id x = tid \<and> r_user_id x = usr_id) table then
        Inr (map (\<lambda>x. if r_tool_id x = tid \<and> r_user_id x = usr_id then x\<lparr>rating := val\<rparr> else x)
               table)
      else if list_ex (\<lambda>x. rating_id x = new_id) table then Inl unique_violation
      else Inr (table @ [\<lparr>rating_id = new_id, r_tool_id = tid, r_user_id = usr_id, rating = val\<rparr>]))"

text \<open>The state of the rating component of \<^verbatim>\<open>ToolRating.tsx\<close> that the click uses.\<close>

record RatingWidget =
  userRating :: int
  submitting :: bool

text \<open>
  \<open>handleRatingClick(rating)\<close> for the tool \<open>toolId\<close>: nothing without a user or
  while a submission is under way; an error of the upsert is thrown, caught and logged,
  and \<open>userRating\<close> keeps its value.
\<close>

definition handleRatingClick ::
  "User option \<Rightarrow> uuid \<Rightarrow> uuid \<Rightarrow> int \<Rightarrow> RatingWidget \<times> ToolRating list
     \<Rightarrow> RatingWidget \<times> ToolRating list" where
  "handleRatingClick usr new_id toolId val s =
     (case s of (wg, table) \<Rightarrow>
        (case usr of
           None \<Rightarrow> s
         | Some u \<Rightarrow>
             if submitting wg then s
             else
               (case upsert_tool_ratings new_id toolId (user_uid u) val table of
                  Inl e \<Rightarrow> (wg\<lparr>submitting := False\<rparr>, table)
                | Inr table' \<Rightarrow> (wg\<lparr>userRating := val, submitting := False\<rparr>, table'))))"

section \<open>Results: TTL cache\<close>

text \<open>
  C4, as stated, at the boundary: an entry stored at time 0 with a time to live of one
  second (\<open>set\<close> stores \<open>ttl = 1000\<close>) is read at time 1000, so
  \<open>now - storedAt\<close> equals \<open>ttl\<close>. The claim makes this a miss that discards the
  entry; \<open>get\<close> returns the stored value, \<open>has\<close> answers true, and the entry
  stays in the map.
\<close>

theorem SimpleCache_get_at_ttl_is_hit:
  "SimpleCache_get [''k'' \<mapsto> \<lparr>data = 7::nat, timestamp = 0, ttl = 1000\<rparr>] 1000 ''k''
     = (Some 7, [''k'' \<mapsto> \<lparr>data = 7, timestamp = 0, ttl = 1000\<rparr>])
   \<and> SimpleCache_has [''k'' \<mapsto> \<lparr>data = 7::nat, timestamp = 0, ttl = 1000\<rparr>] 1000 ''k''
     = (True, [''k'' \<mapsto> \<lparr>data = 7, timestamp = 0, ttl = 1000\<rparr>])
   \<and> SimpleCache_set Map.empty 0 ''k'' (7::nat) 1
     = [''k'' \<mapsto> \<lparr>data = 7, timestamp = 0, ttl = 1000\<rparr>]"
  by (simp add: SimpleCache_get_def SimpleCache_has_def SimpleCache_set_def)

text \<open>
  C4, amended: \<open>get key\<close> returns the stored value exactly when the key is present and
  \<open>now - storedAt \<le> ttl\<close>, and then leaves the cache as it is; when the key is present
  and \<open>now - storedAt > ttl\<close> the call is a miss and the entry is deleted; when the key
  is absent the call is a miss and the cache is unchanged.
\<close>

theorem SimpleCache_get_hit_iff:
  "(c key = None \<longrightarrow> SimpleCache_get c now key = (None, c)) \<and>
   (\<forall>e. c key = Some e \<longrightarrow>
      (now - timestamp e \<le> ttl e \<longrightarrow> SimpleCache_get c now key = (Some (data e), c)) \<and>
      (now - timestamp e > ttl e \<longrightarrow> SimpleCache_get c now key = (None, c(key := None))))"
  by (simp add: SimpleCache_get_def)

theorem SimpleCache_get_hit_iff_witness:
  "SimpleCache_get (SimpleCache_set Map.empty 0 ''k'' (7::nat) 1) 999 ''k''
     = (Some 7, SimpleCache_set Map.empty 0 ''k'' 7 1)
   \<and> SimpleCache_get (SimpleCache_set Map.empty 0 ''k'' (7::nat) 1) 1001 ''k''
     = (None, (SimpleCache_set Map.empty 0 ''k'' 7 1)(''k'' := None))
   \<and> SimpleCache_get (Map.empty :: nat SimpleCache) 5 ''k'' = (None, Map.empty)"
  using SimpleCache_get_hit_iff [of "SimpleCache_set Map.empty 0 ''k'' (7::nat) 1" "''k''" 999]
        SimpleCache_get_hit_iff [of "SimpleCache_set Map.empty 0 ''k'' (7::nat) 1" "''k''" 1001]
        SimpleCache_get_hit_iff [of "Map.empty :: nat SimpleCache" "''k''" 5]
  by (simp add: SimpleCache_set_def)

section \<open>Results: visibility\<close>

lemma fetchTools_single:
  "fetchTools a [t] = (if fetchTools_query a t \<and> policy_read_ai_tools a t then [t] else [])"
  by (simp add: fetchTools_def)

text \<open>The rows that a list receives from any table.\<close>

lemma set_fetchTools:
  "set (fetchTools a table) =
     {t \<in> set table. status t = approved \<or> created_by t = Some (uid a) \<or> profile_role a = Some owner}"
  by (auto simp: fetchTools_def fetchTools_query_def policy_read_ai_tools_def)

text \<open>
  C7: \<open>canView\<close> is true exactly when the tool is approved, or the actor is its
  creator, or the actor's role is owner; so a pending tool of somebody else is not
  visible to an actor who is not an owner.
\<close>

theorem canView_iff:
  "(canView t a \<longleftrightarrow>
      status t = approved \<or> created_by t = Some (uid a) \<or> profile_role a = Some owner) \<and>
   (status t = pending \<and> created_by t \<noteq> Some (uid a) \<and> profile_role a \<noteq> Some owner
      \<longrightarrow> \<not> canView t a)"
  by (auto simp: canView_def fetchTools_single fetchTools_query_def policy_read_ai_tools_def)

theorem canView_iff_witness:
  "\<not> canView \<lparr>tool_id = ''t1'', name = ''Foo'', description = ''d'', status = pending,
       approved_by = None, approved_at = None, rejection_reason = None,
       created_by = Some ''userA''\<rparr> \<lparr>uid = ''userB'', profile_role = Some frontend\<rparr>
   \<and> canView \<lparr>tool_id = ''t1'', name = ''Foo'', description = ''d'', status = pending,
       approved_by = None, approved_at = None, rejection_reason = None,
       created_by = Some ''userA''\<rparr> \<lparr>uid = ''userA'', profile_role = Some backend\<rparr>
   \<and> canView \<lparr>tool_id = ''t1'', name = ''Foo'', description = ''d'', status = pending,
       approved_by = None, approved_at = None, rejection_reason = None,
       created_by = Some ''userA''\<rparr> \<lparr>uid = ''userC'', profile_role = Some owner\<rparr>
   \<and> canView \<lparr>tool_id = ''t1'', name = ''Foo'', description = ''d'', status = approved,
       approved_by = Some ''userC'', approved_at = Some 5, rejection_reason = None,
       created_by = Some ''userA''\<rparr> \<lparr>uid = ''userB'', profile_role = Some frontend\<rparr>"
  using canView_iff [of "\<lparr>tool_id = ''t1'', name = ''Foo'', description = ''d'', status = pending,
       approved_by = None, approved_at = None, rejection_reason = None,
       created_by = Some ''userA''\<rparr>" "\<lparr>uid = ''userB'', profile_role = Some frontend\<rparr>"]
    canView_iff [of "\<lparr>tool_id = ''t1'', name = ''Foo'', description = ''d'', status = pending,
       approved_by = None, approved_at = None, rejection_reason = None,
       created_by = Some ''userA''\<rparr>" "\<lparr>uid = ''userA'', profile_role = Some backend\<rparr>"]
    canView_iff [of "\<lparr>tool_id = ''t1'', name = ''Foo'', description = ''d'', status = pending,
       approved_by = None, approved_at = None, rejection_reason = None,
       created_by = Some ''userA''\<rparr>" "\<lparr>uid = ''userC'', profile_role = Some owner\<rparr>"]
    canView_iff [of "\<lparr>tool_id = ''t1'', name = ''Foo'', description = ''d'', status = approved,
       approved_by = Some ''userC'', approved_at = Some 5, rejection_reason = None,
       created_by = Some ''userA''\<rparr>" "\<lparr>uid = ''userB'', profile_role = Some frontend\<rparr>"]
  by simp

section \<open>Results: rating aggregation\<close>







lemma select_comments_approved:
  "approved_tool tool_table tid \<Longrightarrow>
     select_comments tool_table tid comments = stored_comments tid comments"
  by (induction comments)
     (simp_all add: select_comments_def stored_comments_def policy_read_tool_comments_def)











section \<open>Results: activity log and sign-in\<close>

lemma activity_logs_set_loading [simp]: "activity_logs (set_loading b wd) = activity_logs wd"
  by (simp add: set_loading_def)

lemma activity_logs_console_log [simp]: "activity_logs (console_log l wd) = activity_logs wd"
  by (simp add: console_log_def)

lemma activity_logs_session_established [simp]:
  "activity_logs (session_established sess wd) = activity_logs wd"
  by (simp add: session_established_def split: option.split)

lemma activity_logs_insert:
  "activity_logs (insert_activity_log ins row wd) =
     (if ins = Written then activity_logs wd @ [row] else activity_logs wd)"
  by (simp add: insert_activity_log_def split: write_reply.split)

lemma signIn_logs_cases:
  "activity_logs (snd (signIn configured w em pw wd)) = activity_logs wd \<or>
   (\<exists>u sess has_2fa. signInWithPassword_reply w = Data (Some u, sess) \<and>
      activity_logs (snd (signIn configured w em pw wd)) =
        activity_logs wd @ [login_row u em has_2fa (clock w) (userAgent w)])"
  by (auto simp: signIn_def Let_def activity_logs_insert
           split: reply.split option.split prod.split)

lemma signIn_refused_no_log:
  "signInWithPassword_reply w = Error e \<Longrightarrow>
     activity_logs (snd (signIn configured w em pw wd)) = activity_logs wd"
  by (simp add: signIn_def Let_def)

lemma logActivity_cases:
  "logActivity configured usr t ua ins p logs = logs \<or>
   (\<exists>u row. usr = Some u \<and> logActivity configured usr t ua ins p logs = logs @ [row] \<and>
      log_user_id row = Some (user_uid u) \<and> action row = p_action p)"
  by (auto simp: logActivity_def split: option.split write_reply.split)

text \<open>
  C10: \<open>logActivity\<close> writes nothing when there is no user, and a row it writes carries
  the id of the user of the auth context; \<open>signIn\<close> writes nothing when the provider
  refuses the credentials, and the only row it ever writes is the login row of the user
  that the provider has just authenticated.
\<close>

theorem audit_rows_only_for_authenticated_user:
  "logActivity configured None t ua ins p logs = logs \<and>
   (logActivity configured usr t ua ins p logs = logs \<or>
    (\<exists>u row. usr = Some u \<and> logActivity configured usr t ua ins p logs = logs @ [row] \<and>
       log_user_id row = Some (user_uid u) \<and> action row = p_action p)) \<and>
   (\<forall>e. signInWithPassword_reply w = Error e \<longrightarrow>
      activity_logs (snd (signIn configured w em pw wd)) = activity_logs wd) \<and>
   (activity_logs (snd (signIn configured w em pw wd)) = activity_logs wd \<or>
    (\<exists>u sess has_2fa. signInWithPassword_reply w = Data (Some u, sess) \<and>
       activity_logs (snd (signIn configured w em pw wd)) =
         activity_logs wd @ [login_row u em has_2fa (clock w) (userAgent w)]))"
proof -
  have "logActivity configured None t ua ins p logs = logs"
    by (simp add: logActivity_def)
  then show ?thesis
    using logActivity_cases [of configured usr t ua ins p logs]
      signIn_logs_cases [of configured w em pw wd] signIn_refused_no_log [of w _ configured em pw wd]
    by blast
qed

theorem audit_rows_only_for_authenticated_user_witness:
  "activity_logs (snd (signIn True
      \<lparr>signInWithPassword_reply = Error \<lparr>message = Some ''Invalid login credentials''\<rparr>,
       profile_reply = Data (Some False), login_insert_reply = Written,
       random_code = ''123456'', clock = 10, userAgent = ''ua''\<rparr>
      ''ivan@admin.local'' ''wrong'' (initial_world []))) = []
   \<and> logActivity True None 10 ''ua'' Written
        \<lparr>p_action = logout, p_resourceType = R_auth, p_resourceId = None, p_details = []\<rparr> [] = []"
  using audit_rows_only_for_authenticated_user [of True 10 "''ua''" Written
      "\<lparr>p_action = logout, p_resourceType = R_auth, p_resourceId = None, p_details = []\<rparr>" "[]" None
      "\<lparr>signInWithPassword_reply = Error \<lparr>message = Some ''Invalid login credentials''\<rparr>,
       profile_reply = Data (Some False), login_insert_reply = Written,
       random_code = ''123456'', clock = 10, userAgent = ''ua''\<rparr>"
      "''ivan@admin.local''" "''wrong''" "initial_world []"]
  by (simp add: initial_world_def)

section \<open>Results: sign-out\<close>

lemma auth_state_set_loading:
  "auth_state (set_loading b wd) = (auth_state wd)\<lparr>loading := b\<rparr>"
  by (simp add: set_loading_def)

lemma auth_state_console_log [simp]: "auth_state (console_log l wd) = auth_state wd"
  by (simp add: console_log_def)

lemma auth_state_show_toast [simp]: "auth_state (show_toast x wd) = auth_state wd"
  by (simp add: show_toast_def)

lemma auth_state_insert_activity_log [simp]:
  "auth_state (insert_activity_log ins row wd) = auth_state wd"
  by (simp add: insert_activity_log_def split: write_reply.split)

text \<open>Without a client nothing ever sets the session, the user or the profile.\<close>

lemma reachable_without_client:
  "reachable configured wd \<Longrightarrow> \<not> configured \<Longrightarrow>
     session (auth_state wd) = None \<and> user (auth_state wd) = None \<and> profile (auth_state wd) = None"
proof (induction rule: reachable.induct)
  case (mount logs)
  show ?case by (simp add: initial_world_def)
next
  case (no_client wd)
  then show ?case by (simp add: auth_state_set_loading)
next
  case (called_signIn wd w em pw)
  then show ?case by (simp add: signIn_def)
next
  case (called_verifyTwoFactor wd v em code)
  then show ?case by (simp add: verifyTwoFactor_def)
next
  case (called_signOut wd r c)
  then show ?case by (simp add: signOut_def)
qed simp_all

lemma signOut_result:
  "fst (signOut configured r (wd, c)) = None"
  by (simp add: signOut_def Let_def split: promise.split option.split)

lemma signOut_clears:
  "configured \<Longrightarrow>
     session (auth_state (fst (snd (signOut configured r (wd, c))))) = None \<and>
     user (auth_state (fst (snd (signOut configured r (wd, c))))) = None \<and>
     profile (auth_state (fst (snd (signOut configured r (wd, c))))) = None \<and>
     snd (snd (signOut configured r (wd, c))) = Map.empty"
  by (simp add: signOut_def Let_def SimpleCache_clear_def split: promise.split option.split)

text \<open>
  C9: in every world the provider component can be in, and for every outcome of the
  provider's sign-out call (no error, an error, a rejection), \<open>signOut\<close> resolves with a
  null error and afterwards the session, the user and the profile are null.
\<close>

theorem signOut_null_error_and_cleared:
  assumes "reachable configured wd"
  shows "fst (signOut configured r (wd, c)) = None \<and>
     session (auth_state (fst (snd (signOut configured r (wd, c))))) = None \<and>
     user (auth_state (fst (snd (signOut configured r (wd, c))))) = None \<and>
     profile (auth_state (fst (snd (signOut configured r (wd, c))))) = None"
proof (cases configured)
  case True
  then show ?thesis
    using signOut_clears [of configured r wd c] signOut_result [of configured r wd c] by simp
next
  case False
  with assms have "session (auth_state wd) = None \<and> user (auth_state wd) = None
      \<and> profile (auth_state wd) = None"
    by (rule reachable_without_client)
  with False show ?thesis
    by (simp add: signOut_def)
qed

theorem signOut_null_error_and_cleared_witness:
  "fst (signOut True (Resolved (Some \<lparr>message = Some ''network down''\<rparr>))
      ((initial_world [])\<lparr>auth_state := onAuthStateChange
          (Some \<lparr>access_token = ''tok'', session_user = \<lparr>user_uid = ''u1'', user_email = ''ivan@admin.local''\<rparr>\<rparr>)
          (auth_state (initial_world []))\<rparr>, (Map.empty :: nat SimpleCache))) = None
   \<and> session (auth_state (fst (snd (signOut True (Resolved (Some \<lparr>message = Some ''network down''\<rparr>))
      ((initial_world [])\<lparr>auth_state := onAuthStateChange
          (Some \<lparr>access_token = ''tok'', session_user = \<lparr>user_uid = ''u1'', user_email = ''ivan@admin.local''\<rparr>\<rparr>)
          (auth_state (initial_world []))\<rparr>, (Map.empty :: nat SimpleCache)))))) = None
   \<and> session (auth_state ((initial_world [])\<lparr>auth_state := onAuthStateChange
          (Some \<lparr>access_token = ''tok'', session_user = \<lparr>user_uid = ''u1'', user_email = ''ivan@admin.local''\<rparr>\<rparr>)
          (auth_state (initial_world []))\<rparr>)) \<noteq> None"
proof -
  have r: "reachable True ((initial_world [])\<lparr>auth_state := onAuthStateChange
          (Some \<lparr>access_token = ''tok'', session_user = \<lparr>user_uid = ''u1'', user_email = ''ivan@admin.local''\<rparr>\<rparr>)
          (auth_state (initial_world []))\<rparr>)"
    by (rule reachable.auth_event [OF reachable.mount]) simp
  show ?thesis
    using signOut_null_error_and_cleared [OF r,
        of "Resolved (Some \<lparr>message = Some ''network down''\<rparr>)" "Map.empty :: nat SimpleCache"]
    by (simp add: onAuthStateChange_def)
qed

section \<open>Results: two-factor login\<close>

lemma session_set_loading [simp]:
  "session (auth_state (set_loading b wd)) = session (auth_state wd)"
  by (simp add: set_loading_def)

lemma session_session_established:
  "session (auth_state (session_established sess wd)) =
     (case sess of None \<Rightarrow> session (auth_state wd) | Some s \<Rightarrow> Some s)"
  by (simp add: session_established_def onAuthStateChange_def split: option.split)

text \<open>
  Whatever the profile says about two-factor login, once the provider has accepted the
  password and returned a session, \<open>signIn\<close> leaves that session in the state; and the
  only errors \<open>signIn\<close> returns are the provider's own, the message for a missing client
  and the message of its \<open>catch\<close> branch.
\<close>

lemma signIn_accepted_has_session:
  "signInWithPassword_reply w = Data (authUser, Some s) \<Longrightarrow>
     session (auth_state (snd (signIn True w em pw wd))) = Some s"
  by (simp add: signIn_def Let_def insert_activity_log_def console_log_def
        session_session_established split: option.split reply.split write_reply.split)

lemma signIn_error_cases:
  "fst (signIn configured w em pw wd) = Some e \<Longrightarrow>
     signInWithPassword_reply w = Error e \<or> message e = Some msg_not_configured \<or>
     message e = Some msg_sign_in_failed"
  by (auto simp: signIn_def Let_def split: if_splits reply.splits option.splits prod.splits)

lemma own_messages_not_two_factor_required:
  "msg_not_configured \<noteq> ''TWO_FACTOR_REQUIRED''" "msg_sign_in_failed \<noteq> ''TWO_FACTOR_REQUIRED''"
  by (simp_all add: msg_not_configured_def msg_sign_in_failed_def)

text \<open>
  The code form is opened by \<open>handleSubmit\<close> only when the provider itself answers
  with an error whose message is \<open>TWO_FACTOR_REQUIRED\<close>; \<open>signIn\<close> never makes
  that error.
\<close>

lemma handleSubmit_opens_code_form:
  assumes "showTwoFactor (fst (handleSubmit configured w (f, wd)))" "\<not> showTwoFactor f"
  shows "\<exists>e. signInWithPassword_reply w = Error e \<and> message e = Some ''TWO_FACTOR_REQUIRED''"
proof -
  from assms obtain e where e: "fst (signIn configured w (email f) (password f) wd) = Some e"
      "message e = Some ''TWO_FACTOR_REQUIRED''"
    by (auto simp: handleSubmit_def split: if_splits prod.splits option.splits)
  from signIn_error_cases [OF e(1)] e(2) own_messages_not_two_factor_required
  show ?thesis by auto
qed

text \<open>
  C1 at a concrete input: the profile of \<open>elena@frontend.local\<close> has
  \<open>two_factor_enabled = true\<close>, the password is correct (the provider answers with the
  user and a session). Before the call the form awaits the credentials. After
  \<open>handleSubmit\<close> the code has been printed to the console, the session is in the
  state, the code form is not shown, and the login entry records \<open>has_2fa = true\<close>:
  the sequence is in \<open>Authenticated\<close>, not in \<open>AwaitingCode\<close>.
\<close>

theorem handleSubmit_two_factor_profile_is_authenticated:
  "login_state
     (\<lparr>email = ''elena@frontend.local'', password = ''password'', twoFactorCode = [],
       showTwoFactor = False, twoFactorEmail = []\<rparr>, set_loading False (initial_world []))
     = AwaitingCredentials
   \<and> login_state (handleSubmit True
       \<lparr>signInWithPassword_reply =
          Data (Some \<lparr>user_uid = ''u2'', user_email = ''elena@frontend.local''\<rparr>,
                Some \<lparr>access_token = ''tok'',
                      session_user = \<lparr>user_uid = ''u2'', user_email = ''elena@frontend.local''\<rparr>\<rparr>),
        profile_reply = Data (Some True), login_insert_reply = Written,
        random_code = ''123456'', clock = 10, userAgent = ''ua''\<rparr>
       (\<lparr>email = ''elena@frontend.local'', password = ''password'', twoFactorCode = [],
         showTwoFactor = False, twoFactorEmail = []\<rparr>, set_loading False (initial_world [])))
     = Authenticated
   \<and> handleSubmit True
       \<lparr>signInWithPassword_reply =
          Data (Some \<lparr>user_uid = ''u2'', user_email = ''elena@frontend.local''\<rparr>,
                Some \<lparr>access_token = ''tok'',
                      session_user = \<lparr>user_uid = ''u2'', user_email = ''elena@frontend.local''\<rparr>\<rparr>),
        profile_reply = Data (Some True), login_insert_reply = Written,
        random_code = ''123456'', clock = 10, userAgent = ''ua''\<rparr>
       (\<lparr>email = ''elena@frontend.local'', password = ''password'', twoFactorCode = [],
         showTwoFactor = False, twoFactorEmail = []\<rparr>, set_loading False (initial_world []))
     = (\<lparr>email = [], password = [], twoFactorCode = [], showTwoFactor = False,
         twoFactorEmail = []\<rparr>,
        \<lparr>auth_state =
           \<lparr>session = Some \<lparr>access_token = ''tok'',
               session_user = \<lparr>user_uid = ''u2'', user_email = ''elena@frontend.local''\<rparr>\<rparr>,
            user = Some \<lparr>user_uid = ''u2'', user_email = ''elena@frontend.local''\<rparr>,
            profile = None, loading = False\<rparr>,
         activity_logs =
           [login_row \<lparr>user_uid = ''u2'', user_email = ''elena@frontend.local''\<rparr>
              ''elena@frontend.local'' True 10 ''ua''],
         console = [TwoFactorCode ''elena@frontend.local'' ''123456''],
         toasts = [SuccessToast toast_login_ok]\<rparr>)"
  by (simp add: login_state_def handleSubmit_def signIn_def Let_def initial_world_def
        set_loading_def session_established_def onAuthStateChange_def console_log_def
        insert_activity_log_def show_toast_def)








section \<open>Results: tool approval\<close>

lemma update_ai_tools_owner:
  "update_ai_tools (Some u) (Some owner) tid patch table =
     map (\<lambda>t. if tool_id t = tid then patch t else t) table"
  by (simp add: update_ai_tools_def policy_update_ai_tools_def caller_def)

lemma logActivity_written:
  "logActivity True (Some u) t ua Written p logs =
     logs @ [\<lparr>log_user_id = Some (user_uid u), action = p_action p,
              resource_type = p_resourceType p, resource_id = p_resourceId p,
              details = spread [(''timestamp'', JTime t), (''user_id'', JStr (user_uid u))] (p_details p),
              user_agent = Some ua\<rparr>]"
  by (simp add: logActivity_def)


lemma confirmReject_owner:
  "update_error w = None \<Longrightarrow> selectedTool p = Some sel \<Longrightarrow>
     fst (snd (confirmReject configured (Some u) (Some owner) w (p, table, logs))) =
       map (\<lambda>x. if tool_id x = tool_id sel
                 then reject_patch (Some u) (m_clock w) (rejectionReason p) x else x) table"
  by (simp add: confirmReject_def Let_def update_ai_tools_owner)

text \<open>
  A reload that fails leaves the list of the panel as it was, so after an approval the
  panel of the same owner still holds the pending copy; and the panel of another owner
  is not touched by the call at all.
\<close>

lemma handleApprove_failed_reload:
  "update_error w = None \<Longrightarrow> \<not> reload_ok w \<Longrightarrow>
     fst (handleApprove configured usr r w tid (p, table, logs)) = p"
  by (simp add: handleApprove_def Let_def reload_tools_def)





text \<open>
  C8, as stated, at a concrete input: an owner rejects the pending tool \<open>t1\<close> and gives
  no reason. The stored reason is the Bulgarian default text of the code, which is not
  the text \<open>no reason given\<close>.
\<close>

theorem confirmReject_default_reason_text:
  "fst (snd (confirmReject True (Some \<lparr>user_uid = ''o2'', user_email = ''ivan@admin.local''\<rparr>)
       (Some owner)
       \<lparr>update_error = None, audit_insert_reply = Written, reload_ok = True, m_clock = 9,
        m_userAgent = ''ua''\<rparr>
       (handleReject
          \<lparr>tool_id = ''t1'', name = ''Foo'', description = ''d'', status = pending,
           approved_by = None, approved_at = None, rejection_reason = None,
           created_by = Some ''a''\<rparr>
          \<lparr>tools = [], rejectionReason = [], showRejectionModal = False, selectedTool = None\<rparr>,
        [\<lparr>tool_id = ''t1'', name = ''Foo'', description = ''d'', status = pending,
          approved_by = None, approved_at = None, rejection_reason = None,
          created_by = Some ''a''\<rparr>], [])))
     = [\<lparr>tool_id = ''t1'', name = ''Foo'', description = ''d'', status = rejected,
         approved_by = Some ''o2'', approved_at = Some 9,
         rejection_reason = Some default_rejection_reason, created_by = Some ''a''\<rparr>]
   \<and> default_rejection_reason \<noteq> ''no reason given''"
  by (simp add: confirmReject_def handleReject_def Let_def update_ai_tools_owner reject_patch_def
        default_rejection_reason_def)

text \<open>
  C8, amended: an owner rejects a tool through the panel (the reject button, the reason
  typed into the modal, the confirm button). When the update succeeds, every row of that
  tool gets the status rejected, the id of the owner as \<open>approved_by\<close>, the clock as
  \<open>approved_at\<close>, and as \<open>rejection_reason\<close> the reason typed, or the default text
  of the code when the reason is empty; when the audit insert is accepted, the row
  written has the action \<open>reject_tool\<close>, the id of the owner and the id of the tool.
\<close>

theorem confirmReject_sets_rejected:
  assumes "update_error w = None" "audit_insert_reply w = Written"
  shows "fst (snd (confirmReject True (Some u) (Some owner) w
                (setRejectionReason reason (handleReject tool p), table, logs))) =
           map (\<lambda>x. if tool_id x = tool_id tool
                     then x\<lparr>status := rejected, approved_by := Some (user_uid u),
                            approved_at := Some (m_clock w),
                            rejection_reason :=
                              Some (if reason = [] then default_rejection_reason else reason)\<rparr>
                     else x) table \<and>
         (\<exists>row. snd (snd (confirmReject True (Some u) (Some owner) w
                  (setRejectionReason reason (handleReject tool p), table, logs))) = logs @ [row] \<and>
            action row = reject_tool \<and> resource_type row = R_ai_tool \<and>
            log_user_id row = Some (user_uid u) \<and> resource_id row = Some (tool_id tool))"
  using assms
  by (simp add: confirmReject_def handleReject_def setRejectionReason_def Let_def
        update_ai_tools_owner reject_patch_def logActivity_written)

theorem confirmReject_sets_rejected_witness:
  "fst (snd (confirmReject True (Some \<lparr>user_uid = ''o2'', user_email = ''ivan@admin.local''\<rparr>)
       (Some owner)
       \<lparr>update_error = None, audit_insert_reply = Written, reload_ok = True, m_clock = 9,
        m_userAgent = ''ua''\<rparr>
       (setRejectionReason ''duplicate''
          (handleReject
             \<lparr>tool_id = ''t1'', name = ''Foo'', description = ''d'', status = pending,
              approved_by = None, approved_at = None, rejection_reason = None,
              created_by = Some ''a''\<rparr>
             \<lparr>tools = [], rejectionReason = [], showRejectionModal = False, selectedTool = None\<rparr>),
        [\<lparr>tool_id = ''t1'', name = ''Foo'', description = ''d'', status = pending,
          approved_by = None, approved_at = None, rejection_reason = None,
          created_by = Some ''a''\<rparr>,
         \<lparr>tool_id = ''t2'', name = ''Bar'', description = ''e'', status = pending,
          approved_by = None, approved_at = None, rejection_reason = None,
          created_by = Some ''b''\<rparr>], [])))
     = [\<lparr>tool_id = ''t1'', name = ''Foo'', description = ''d'', status = rejected,
         approved_by = Some ''o2'', approved_at = Some 9,
         rejection_reason = Some ''duplicate'', created_by = Some ''a''\<rparr>,
        \<lparr>tool_id = ''t2'', name = ''Bar'', description = ''e'', status = pending,
          approved_by = None, approved_at = None, rejection_reason = None,
          created_by = Some ''b''\<rparr>]
   \<and> map action (snd (snd (confirmReject True
       (Some \<lparr>user_uid = ''o2'', user_email = ''ivan@admin.local''\<rparr>) (Some owner)
       \<lparr>update_error = None, audit_insert_reply = Written, reload_ok = True, m_clock = 9,
        m_userAgent = ''ua''\<rparr>
       (setRejectionReason ''duplicate''
          (handleReject
             \<lparr>tool_id = ''t1'', name = ''Foo'', description = ''d'', status = pending,
              approved_by = None, approved_at = None, rejection_reason = None,
              created_by = Some ''a''\<rparr>
             \<lparr>tools = [], rejectionReason = [], showRejectionModal = False, selectedTool = None\<rparr>),
        [\<lparr>tool_id = ''t1'', name = ''Foo'', description = ''d'', status = pending,
          approved_by = None, approved_at = None, rejection_reason = None,
          created_by = Some ''a''\<rparr>,
         \<lparr>tool_id = ''t2'', name = ''Bar'', description = ''e'', status = pending,
          approved_by = None, approved_at = None, rejection_reason = None,
          created_by = Some ''b''\<rparr>], [])))) = [reject_tool]"
  using confirmReject_sets_rejected [where w =
      "\<lparr>update_error = None, audit_insert_reply = Written, reload_ok = True, m_clock = 9,
        m_userAgent = ''ua''\<rparr>"
      and u = "\<lparr>user_uid = ''o2'', user_email = ''ivan@admin.local''\<rparr>"
      and reason = "''duplicate''"
      and tool = "\<lparr>tool_id = ''t1'', name = ''Foo'', description = ''d'', status = pending,
              approved_by = None, approved_at = None, rejection_reason = None,
              created_by = Some ''a''\<rparr>"
      and p = "\<lparr>tools = [], rejectionReason = [], showRejectionModal = False, selectedTool = None\<rparr>"
      and table = "[\<lparr>tool_id = ''t1'', name = ''Foo'', description = ''d'', status = pending,
          approved_by = None, approved_at = None, rejection_reason = None,
          created_by = Some ''a''\<rparr>,
         \<lparr>tool_id = ''t2'', name = ''Bar'', description = ''e'', status = pending,
          approved_by = None, approved_at = None, rejection_reason = None,
          created_by = Some ''b''\<rparr>]" and logs = "[]"]
  by auto

section \<open>Results: rating a tool\<close>

text \<open>
  With a generated id that no row has, the upsert of the code is refused as soon as the
  tool already has a rating of the user: the table keeps the earlier value.
\<close>

lemma handleRatingClick_second_rating_refused:
  assumes "\<not> list_ex (\<lambda>x. rating_id x = new_id) table"
    "list_ex (\<lambda>x. r_tool_id x = tid \<and> r_user_id x = user_uid u) table"
  shows "snd (handleRatingClick (Some u) new_id tid val (wg, table)) = table"
  using assms
  by (simp add: handleRatingClick_def upsert_tool_ratings_def)

text \<open>Rating twice with the same value leaves one row with that value, the second call being refused.\<close>

lemma handleRatingClick_same_value_twice:
  "snd (handleRatingClick (Some \<lparr>user_uid = ''a'', user_email = ''ana@design.local''\<rparr>) ''r2'' ''x'' 5
     (handleRatingClick (Some \<lparr>user_uid = ''a'', user_email = ''ana@design.local''\<rparr>) ''r1'' ''x'' 5
        (\<lparr>userRating = 0, submitting = False\<rparr>, [])))
     = [\<lparr>rating_id = ''r1'', r_tool_id = ''x'', r_user_id = ''a'', rating = 5\<rparr>]"
  by (simp add: handleRatingClick_def upsert_tool_ratings_def)

text \<open>
  C5 at a concrete input: the user rates the tool \<open>x\<close> with 3 and then with 5, the
  database generating the ids \<open>r1\<close> and \<open>r2\<close>. The second upsert is refused by the
  unique constraint; one row exists, with the value 3, and the component still shows 3.
  With the conflict target \<open>(tool_id, user_id)\<close> the same request would have
  overwritten the value.
\<close>

theorem handleRatingClick_second_rating_not_stored:
  "handleRatingClick (Some \<lparr>user_uid = ''a'', user_email = ''ana@design.local''\<rparr>) ''r2'' ''x'' 5
     (handleRatingClick (Some \<lparr>user_uid = ''a'', user_email = ''ana@design.local''\<rparr>) ''r1'' ''x'' 3
        (\<lparr>userRating = 0, submitting = False\<rparr>, []))
     = (\<lparr>userRating = 3, submitting = False\<rparr>,
        [\<lparr>rating_id = ''r1'', r_tool_id = ''x'', r_user_id = ''a'', rating = 3\<rparr>])
   \<and> upsert_tool_ratings ''r2'' ''x'' ''a'' 5
       [\<lparr>rating_id = ''r1'', r_tool_id = ''x'', r_user_id = ''a'', rating = 3\<rparr>]
     = Inl unique_violation
   \<and> upsert_on_tool_user ''r2'' ''x'' ''a'' 5
       [\<lparr>rating_id = ''r1'', r_tool_id = ''x'', r_user_id = ''a'', rating = 3\<rparr>]
     = Inr [\<lparr>rating_id = ''r1'', r_tool_id = ''x'', r_user_id = ''a'', rating = 5\<rparr>]"
  by (simp add: handleRatingClick_def upsert_tool_ratings_def upsert_on_tool_user_def)

end
